theory Spec2Isabelle
  imports Main
begin

section \<open>Object literals\<close>

text \<open>
  The site's data modules export arrays of object literals whose property values are all
  string literals. An object literal is kept as the list of its \<open>key: value\<close> pairs in
  the order the source writes them, so that a property left out of a literal is left out
  of the model too. Reading a property that a literal does not have yields \<open>undefined\<close>
  in the source and \<open>None\<close> here; were a key written twice, the later pair would win,
  as it does in an object literal.
\<close>

type_synonym obj = "(string \<times> string) list"

definition lookup_field :: "string \<Rightarrow> obj \<Rightarrow> string option" where
  "lookup_field k ob = map_of (rev ob) k"

definition has_field :: "string \<Rightarrow> obj \<Rightarrow> bool" where
  "has_field k ob = (case lookup_field k ob of None \<Rightarrow> False | Some v \<Rightarrow> True)"

definition nonempty_field :: "string \<Rightarrow> obj \<Rightarrow> bool" where
  "nonempty_field k ob = (case lookup_field k ob of None \<Rightarrow> False | Some v \<Rightarrow> v \<noteq> [])"


section \<open>The project list (src/utils/projects.ts)\<close>

definition projects :: "obj list" where
  "projects = [
     [(''name'', ''Kompa''),
      (''description'',
         ''A comparables marketplace for the built environment, providing access to verified property data and insights.''),
      (''accent'', ''#FF7E44''),
      (''repo'', ''''),
      (''live'', ''https://kompa-web.vercel.app/''),
      (''image'', '''')],
     [(''name'', ''Yenko Studio''),
      (''description'',
         ''A platform that transforms creative ideas into digital products through technology and design.''),
      (''live'', ''https://yenko.studio''),
      (''image'', ''''),
      (''repo'', ''''),
      (''accent'', ''#FF7E44'')],
     [(''name'', ''Vwaza Web''),
      (''description'',
         ''The main site for Vwaza, showcasing its mission, features, and opportunities for African creators.''),
      (''accent'', ''#FF7E44''),
      (''repo'', ''''),
      (''live'', ''https://vwaza.com/''),
      (''image'', '''')],
     [(''name'', ''Vwaza Music Player''),
      (''description'', ''An online music player for streaming and discovering songs from African artists.''),
      (''accent'', ''#FF7E44''),
      (''repo'', ''''),
      (''live'', ''https://music.vwaza.com/''),
      (''image'', '''')],
     [(''name'', ''M11 Collections''),
      (''description'',
         ''A luxury rental platform offering high-end homes and hotel-style stays for modern travelers.''),
      (''accent'', ''#FF7E44''),
      (''repo'', ''''),
      (''live'', ''https://www.m11collection.com/''),
      (''image'', '''')],
     [(''name'', ''NIC Complaints Hub''),
      (''description'',
         ''A portal for Ghanaians to file and track complaints against insurance companies and agents.''),
      (''accent'', ''#FF7E44''),
      (''repo'', ''''),
      (''live'', ''https://niccomplaintshub.com/''),
      (''image'', '''')]
   ]"

text \<open>The six properties a project record is read by.\<close>

definition project_fields :: "string list" where
  "project_fields = [''name'', ''description'', ''accent'', ''repo'', ''live'', ''image'']"

definition has_all_fields :: "string list \<Rightarrow> obj \<Rightarrow> bool" where
  "has_all_fields ks ob = list_all (\<lambda>k. has_field k ob) ks"


section \<open>The reading list\<close>

text \<open>
  \<open>bookData\<close> is exported without a type annotation; each \<open>status\<close> is a string
  literal narrowed by \<open>as const\<close>, so the values stay strings here.
\<close>

definition bookData :: "obj list" where
  "bookData = [
     [(''title'', ''Homegoing''), (''author'', ''Yaa Gyasi''), (''status'', ''Up Next'')],
     [(''title'', ''The Leavers''), (''author'', ''Lisa Ko''), (''status'', ''Reading'')],
     [(''title'', ''Go in Practice''), (''author'', ''N.Kozyra, et al''), (''status'', ''Reading'')],
     [(''title'', ''Little Fires Everywhere''), (''author'', ''Celeste Ng''), (''status'', ''Finished'')],
     [(''title'', ''Children of Blood & Bone''), (''author'', ''Tomi Adeyemi''), (''status'', ''Finished'')],
     [(''title'', ''A Little Life''), (''author'', ''Hanya Yanagihara''), (''status'', ''Finished'')],
     [(''title'', ''The Three-Body Problem''), (''author'', ''Cixin Liu''), (''status'', ''Finished'')],
     [(''title'', ''The Vagrants''), (''author'', ''Yiyun Li''), (''status'', ''Finished'')],
     [(''title'', ''A Minor Chorus''), (''author'', ''Billy-Ray Belcourt''), (''status'', ''Finished'')],
     [(''title'', ''Co-existence''), (''author'', ''Billy-Ray Belcourt''), (''status'', ''Finished'')],
     [(''title'', ''The Handmaid's Tale''), (''author'', ''Margaret Atwood''), (''status'', ''Finished'')],
     [(''title'', ''Normal People''), (''author'', ''Sally Rooney''), (''status'', ''Finished'')],
     [(''title'', ''Where The Crawdads Sing''), (''author'', ''Delia Owens''), (''status'', ''Finished'')],
     [(''title'', ''Black Matter''), (''author'', ''Blake Crouch''), (''status'', ''Finished'')],
     [(''title'', ''Carrie''), (''author'', ''Stephen King''), (''status'', ''Finished'')],
     [(''title'', ''Sleeping Beauty''), (''author'', ''Stephen King, Owen King''), (''status'', ''Finished'')],
     [(''title'', ''Tattooist of Auschwitz''), (''author'', ''Heather Morris''), (''status'', ''Finished'')],
     [(''title'', ''Fifty Fifty''), (''author'', ''James Patterson, Candice Fox''), (''status'', ''Finished'')]
   ]"

definition book_statuses :: "string list" where
  "book_statuses = [''Up Next'', ''Reading'', ''Finished'']"

definition status_ok :: "obj \<Rightarrow> bool" where
  "status_ok b = (case lookup_field ''status'' b of None \<Rightarrow> False | Some s \<Rightarrow> s \<in> set book_statuses)"

text \<open>The position of a status in the order Up Next, Reading, Finished.\<close>

definition status_rank :: "string \<Rightarrow> nat option" where
  "status_rank s =
     (if s = ''Up Next'' then Some 0
      else if s = ''Reading'' then Some 1
      else if s = ''Finished'' then Some 2
      else None)"

definition book_rank :: "obj \<Rightarrow> nat option" where
  "book_rank b = (case lookup_field ''status'' b of None \<Rightarrow> None | Some s \<Rightarrow> status_rank s)"

fun collect :: "'a option list \<Rightarrow> 'a list option" where
  "collect [] = Some []"
| "collect (None # xs) = None"
| "collect (Some x # xs) = (case collect xs of None \<Rightarrow> None | Some ys \<Rightarrow> Some (x # ys))"

definition book_ranks :: "obj list \<Rightarrow> nat list option" where
  "book_ranks bs = collect (map book_rank bs)"


section \<open>Blog posts\<close>

text \<open>
  A post is a front-matter block between two \<open>---\<close> lines, one \<open>key: value\<close> per line,
  followed by the body. Only the front-matter is modelled. A value is a plain scalar
  (kept as the text after the colon), the booleans \<open>true\<close> and \<open>false\<close>, or a flow
  sequence of double-quoted strings.
\<close>

datatype yaml = YStr string | YBool bool | YSeq "string list"

type_synonym frontmatter = "(string \<times> yaml) list"

definition graphql_frontend_learnings :: frontmatter where
  "graphql_frontend_learnings = [
     (''title'', YStr ''Why I'm No Longer a GraphQL Maximalist''),
     (''description'',
        YStr ''GraphQL feels like magic until you hit production. Here are the hard lessons I learned about security, introspection, and knowing when to just use REST.''),
     (''publishDate'', YStr ''December 17, 2025''),
     (''tags'', YSeq [''software development'', ''graphql'']),
     (''draft'', YBool False)
   ]"

definition type_safe_graphql :: frontmatter where
  "type_safe_graphql = [
     (''title'', YStr ''Type-Safe GraphQL Without Exposing Your Schema''),
     (''description'',
        YStr ''How to set up graphql-request and GraphQL Code Generator in a BFF pattern so you get full type safety without leaking your schema to the browser.''),
     (''publishDate'', YStr ''December 17, 2025''),
     (''tags'', YSeq [''software development'', ''graphql'', ''typescript'']),
     (''draft'', YBool True)
   ]"

definition posts :: "frontmatter list" where
  "posts = [graphql_frontend_learnings, type_safe_graphql]"

definition frontmatter_fields :: "string list" where
  "frontmatter_fields = [''title'', ''description'', ''publishDate'', ''tags'', ''draft'']"

definition has_key :: "string \<Rightarrow> frontmatter \<Rightarrow> bool" where
  "has_key k fm = (case map_of fm k of None \<Rightarrow> False | Some v \<Rightarrow> True)"

definition has_all_keys :: "string list \<Rightarrow> frontmatter \<Rightarrow> bool" where
  "has_all_keys ks fm = list_all (\<lambda>k. has_key k fm) ks"

definition nonempty_title :: "frontmatter \<Rightarrow> bool" where
  "nonempty_title fm = (case map_of fm ''title'' of Some (YStr t) \<Rightarrow> t \<noteq> [] | _ \<Rightarrow> False)"

definition tags_distinct :: "frontmatter \<Rightarrow> bool" where
  "tags_distinct fm = (case map_of fm ''tags'' of Some (YSeq ts) \<Rightarrow> distinct ts | _ \<Rightarrow> False)"


section \<open>Character classes and splitting\<close>

definition is_digit :: "char \<Rightarrow> bool" where
  "is_digit c = (c \<in> set ''0123456789'')"

definition is_hex_digit :: "char \<Rightarrow> bool" where
  "is_hex_digit c = (c \<in> set ''0123456789abcdefABCDEF'')"

definition is_letter :: "char \<Rightarrow> bool" where
  "is_letter c = (c \<in> set ''abcdefghijklmnopqrstuvwxyzABCDEFGHIJKLMNOPQRSTUVWXYZ'')"

fun split_on :: "char \<Rightarrow> string \<Rightarrow> string list" where
  "split_on d [] = [[]]"
| "split_on d (c # cs) =
     (if c = d then [] # split_on d cs
      else (case split_on d cs of [] \<Rightarrow> [[c]] | w # ws \<Rightarrow> (c # w) # ws))"

fun strip_prefix :: "string \<Rightarrow> string \<Rightarrow> string option" where
  "strip_prefix [] s = Some s"
| "strip_prefix (p # ps) [] = None"
| "strip_prefix (p # ps) (c # cs) = (if p = c then strip_prefix ps cs else None)"


section \<open>Hex colours\<close>

text \<open>
  A hex colour is \<open>#\<close> followed by hexadecimal digits only, three, four, six or eight
  of them (the lengths a style sheet accepts).
\<close>

definition is_hex_color :: "string \<Rightarrow> bool" where
  "is_hex_color s =
     (case s of [] \<Rightarrow> False
      | c # ds \<Rightarrow> c = CHR ''#'' \<and> length ds \<in> set [3, 4, 6, 8] \<and> list_all is_hex_digit ds)"

definition hex_color_field :: "string \<Rightarrow> obj \<Rightarrow> bool" where
  "hex_color_field k ob = (case lookup_field k ob of None \<Rightarrow> False | Some v \<Rightarrow> is_hex_color v)"


section \<open>Well-formed URLs\<close>

text \<open>
  The links of the site are absolute web addresses. A string counts as well formed when
  it is \<open>http://\<close> or \<open>https://\<close>, a host of dot-separated labels (letters, digits and
  inner hyphens, no label empty), and then nothing or a path, query or fragment written
  in the characters a URI may contain. The predicate is deliberately narrow (no port,
  no user part, no address literal): everything it accepts is an absolute URI.
\<close>

definition is_url_char :: "char \<Rightarrow> bool" where
  "is_url_char c = (is_letter c \<or> is_digit c \<or> c \<in> set ''-._~:/?#[]@!$&()*+,;=%'')"

definition valid_label :: "string \<Rightarrow> bool" where
  "valid_label l =
     (case l of [] \<Rightarrow> False
      | c # cs \<Rightarrow> list_all (\<lambda>x. is_letter x \<or> is_digit x \<or> x = CHR ''-'') l
                 \<and> c \<noteq> CHR ''-'' \<and> last l \<noteq> CHR ''-'')"

definition valid_host :: "string \<Rightarrow> bool" where
  "valid_host h = list_all valid_label (split_on CHR ''.'' h)"

definition valid_tail :: "string \<Rightarrow> bool" where
  "valid_tail t = (case t of [] \<Rightarrow> True | c # cs \<Rightarrow> c \<in> set ''/?#'' \<and> list_all is_url_char cs)"

definition after_scheme :: "string \<Rightarrow> string option" where
  "after_scheme s =
     (case strip_prefix ''https://'' s of Some r \<Rightarrow> Some r | None \<Rightarrow> strip_prefix ''http://'' s)"

definition well_formed_url :: "string \<Rightarrow> bool" where
  "well_formed_url s =
     (case after_scheme s of None \<Rightarrow> False
      | Some r \<Rightarrow> valid_host (takeWhile (\<lambda>c. c \<notin> set ''/?#'') r)
                  \<and> valid_tail (dropWhile (\<lambda>c. c \<notin> set ''/?#'') r))"

definition url_or_empty_field :: "string \<Rightarrow> obj \<Rightarrow> bool" where
  "url_or_empty_field k ob =
     (case lookup_field k ob of None \<Rightarrow> False | Some v \<Rightarrow> v = [] \<or> well_formed_url v)"


section \<open>Calendar dates\<close>

text \<open>
  The posts write their date as \<open>Month D, YYYY\<close> with the English month name. Such a
  string is a valid date when the month name is one of the twelve, day and year are
  decimal numbers, and the day exists in that month of that year.
\<close>

definition digit_val :: "char \<Rightarrow> nat option" where
  "digit_val c = map_of (zip ''0123456789'' [0, 1, 2, 3, 4, 5, 6, 7, 8, 9]) c"

fun parse_nat_acc :: "nat \<Rightarrow> string \<Rightarrow> nat option" where
  "parse_nat_acc n [] = Some n"
| "parse_nat_acc n (c # cs) =
     (case digit_val c of None \<Rightarrow> None | Some d \<Rightarrow> parse_nat_acc (10 * n + d) cs)"

definition parse_nat :: "string \<Rightarrow> nat option" where
  "parse_nat s = (if s = [] then None else parse_nat_acc 0 s)"

definition month_number :: "string \<Rightarrow> nat option" where
  "month_number m =
     map_of (zip [''January'', ''February'', ''March'', ''April'', ''May'', ''June'', ''July'',
                  ''August'', ''September'', ''October'', ''November'', ''December'']
                 [1, 2, 3, 4, 5, 6, 7, 8, 9, 10, 11, 12]) m"

definition leap_year :: "nat \<Rightarrow> bool" where
  "leap_year y = (y mod 4 = 0 \<and> (y mod 100 \<noteq> 0 \<or> y mod 400 = 0))"

definition days_in_month :: "nat \<Rightarrow> nat \<Rightarrow> nat" where
  "days_in_month y m =
     (if m \<in> set [1, 3, 5, 7, 8, 10, 12] then 31
      else if m \<in> set [4, 6, 9, 11] then 30
      else if m = 2 then (if leap_year y then 29 else 28)
      else 0)"

definition parse_day :: "string \<Rightarrow> nat option" where
  "parse_day w = (case rev w of [] \<Rightarrow> None
                  | c # ds \<Rightarrow> if c = CHR '','' then parse_nat (rev ds) else None)"

definition parse_date :: "string \<Rightarrow> (nat \<times> nat \<times> nat) option" where
  "parse_date s =
     (case split_on CHR '' '' s of
        [mw, dw, yw] \<Rightarrow>
          (case month_number mw of None \<Rightarrow> None
           | Some m \<Rightarrow>
             (case parse_day dw of None \<Rightarrow> None
              | Some d \<Rightarrow>
                (case parse_nat yw of None \<Rightarrow> None | Some y \<Rightarrow> Some (y, m, d))))
      | _ \<Rightarrow> None)"

definition valid_date :: "string \<Rightarrow> bool" where
  "valid_date s =
     (case parse_date s of None \<Rightarrow> False
      | Some (y, m, d) \<Rightarrow> 1 \<le> d \<and> d \<le> days_in_month y m)"

definition valid_publish_date :: "frontmatter \<Rightarrow> bool" where
  "valid_publish_date fm =
     (case map_of fm ''publishDate'' of Some (YStr d) \<Rightarrow> valid_date d | _ \<Rightarrow> False)"


section \<open>Properties of the project list\<close>

text \<open>
  C1. In every record of \<open>projects\<close> the properties \<open>name\<close>, \<open>description\<close> and
  \<open>accent\<close> are there and are not the empty string.
\<close>

theorem projects_required_fields_nonempty:
  "\<forall>p \<in> set projects.
     nonempty_field ''name'' p \<and> nonempty_field ''description'' p \<and> nonempty_field ''accent'' p"
  by (simp add: projects_def nonempty_field_def lookup_field_def)

theorem projects_required_fields_nonempty_witness:
  "projects ! 1 \<in> set projects
   \<and> nonempty_field ''name'' (projects ! 1)
   \<and> nonempty_field ''description'' (projects ! 1)
   \<and> nonempty_field ''accent'' (projects ! 1)"
proof -
  have "projects ! 1 \<in> set projects"
    by (simp add: projects_def)
  with projects_required_fields_nonempty show ?thesis
    by blast
qed

text \<open>
  C4. Every record of \<open>projects\<close> has all six properties \<open>name\<close>, \<open>description\<close>,
  \<open>accent\<close>, \<open>repo\<close>, \<open>live\<close> and \<open>image\<close>; none is left out of any literal.
\<close>

theorem projects_all_six_fields:
  "\<forall>p \<in> set projects. has_all_fields project_fields p"
  by (simp add: projects_def project_fields_def has_all_fields_def has_field_def lookup_field_def)

theorem projects_all_six_fields_witness:
  "projects ! 1 \<in> set projects \<and> has_all_fields project_fields (projects ! 1)"
proof -
  have "projects ! 1 \<in> set projects"
    by (simp add: projects_def)
  with projects_all_six_fields show ?thesis
    by blast
qed

text \<open>
  C5. In every record of \<open>projects\<close> each of \<open>repo\<close>, \<open>live\<close> and \<open>image\<close> is
  either the empty string or a well-formed URL.
\<close>

theorem projects_links_url_or_empty:
  "\<forall>p \<in> set projects.
     url_or_empty_field ''repo'' p \<and> url_or_empty_field ''live'' p \<and> url_or_empty_field ''image'' p"
  by (simp add: projects_def url_or_empty_field_def lookup_field_def well_formed_url_def
      after_scheme_def valid_host_def valid_tail_def valid_label_def is_url_char_def
      is_letter_def is_digit_def)

theorem projects_links_url_or_empty_witness:
  "projects ! 0 \<in> set projects
   \<and> url_or_empty_field ''repo'' (projects ! 0)
   \<and> url_or_empty_field ''live'' (projects ! 0)
   \<and> url_or_empty_field ''image'' (projects ! 0)"
proof -
  have "projects ! 0 \<in> set projects"
    by (simp add: projects_def)
  with projects_links_url_or_empty show ?thesis
    by blast
qed

text \<open>
  C6. In every record of \<open>projects\<close> the \<open>accent\<close> is a hex colour: \<open>#\<close> followed by
  hexadecimal digits.
\<close>

theorem projects_accent_hex_color:
  "\<forall>p \<in> set projects. hex_color_field ''accent'' p"
  by (simp add: projects_def hex_color_field_def lookup_field_def is_hex_color_def
      is_hex_digit_def)

theorem projects_accent_hex_color_witness:
  "projects ! 5 \<in> set projects \<and> hex_color_field ''accent'' (projects ! 5)"
proof -
  have "projects ! 5 \<in> set projects"
    by (simp add: projects_def)
  with projects_accent_hex_color show ?thesis
    by blast
qed

text \<open>
  C10. Every record of \<open>projects\<close> has a \<open>name\<close>, and no two records have the same
  one, so the name identifies the record.
\<close>

theorem projects_names_distinct:
  "\<exists>ns. collect (map (lookup_field ''name'') projects) = Some ns \<and> distinct ns"
  by (simp add: projects_def lookup_field_def)


section \<open>Properties of the reading list\<close>

text \<open>
  C2. In every record of \<open>bookData\<close> the \<open>status\<close> is one of \<open>Up Next\<close>,
  \<open>Reading\<close> and \<open>Finished\<close>.
\<close>

theorem bookData_status_enumerated:
  "\<forall>b \<in> set bookData. status_ok b"
  by (simp add: bookData_def status_ok_def lookup_field_def book_statuses_def)

theorem bookData_status_enumerated_witness:
  "bookData ! 0 \<in> set bookData \<and> status_ok (bookData ! 0)"
proof -
  have "bookData ! 0 \<in> set bookData"
    by (simp add: bookData_def)
  with bookData_status_enumerated show ?thesis
    by blast
qed

text \<open>
  C9. \<open>bookData\<close> is ordered by status: read along the array, the statuses never step
  back in the order Up Next, Reading, Finished. So every Up Next record comes before
  every Reading record, and every Reading record before every Finished one.
\<close>

theorem bookData_sorted_by_status:
  "\<exists>rs. book_ranks bookData = Some rs \<and> sorted rs"
  by (simp add: book_ranks_def bookData_def book_rank_def lookup_field_def status_rank_def)


section \<open>Properties of the blog posts\<close>

text \<open>
  C3. The front-matter of every post has a \<open>title\<close> that is not empty and a
  \<open>publishDate\<close> that is a valid date.
\<close>

theorem posts_title_and_date_valid:
  "\<forall>fm \<in> set posts. nonempty_title fm \<and> valid_publish_date fm"
  by (simp add: posts_def graphql_frontend_learnings_def type_safe_graphql_def
      nonempty_title_def valid_publish_date_def valid_date_def parse_date_def
      month_number_def parse_day_def parse_nat_def digit_val_def days_in_month_def)

theorem posts_title_and_date_valid_witness:
  "graphql_frontend_learnings \<in> set posts
   \<and> nonempty_title graphql_frontend_learnings
   \<and> valid_publish_date graphql_frontend_learnings"
proof -
  have "graphql_frontend_learnings \<in> set posts"
    by (simp add: posts_def)
  with posts_title_and_date_valid show ?thesis
    by blast
qed

text \<open>
  C7. The front-matter of every post has all five keys \<open>title\<close>, \<open>description\<close>,
  \<open>publishDate\<close>, \<open>tags\<close> and \<open>draft\<close>, and its \<open>tags\<close> are a sequence of strings
  in which none occurs twice.
\<close>

theorem posts_frontmatter_complete:
  "\<forall>fm \<in> set posts. has_all_keys frontmatter_fields fm \<and> tags_distinct fm"
  by (simp add: posts_def graphql_frontend_learnings_def type_safe_graphql_def
      has_all_keys_def frontmatter_fields_def has_key_def tags_distinct_def)

theorem posts_frontmatter_complete_witness:
  "type_safe_graphql \<in> set posts
   \<and> has_all_keys frontmatter_fields type_safe_graphql
   \<and> tags_distinct type_safe_graphql"
proof -
  have "type_safe_graphql \<in> set posts"
    by (simp add: posts_def)
  with posts_frontmatter_complete show ?thesis
    by blast
qed

end
